theory Spec2Isabelle
  imports Main "HOL-Library.Word"
begin

section \<open>The Peer of the wire package: data model\<close>

text \<open>
  The class \<open>Peer\<close> (\<open>peer.ts\<close>) layers the Lightning wire protocol on a NoiseSocket.
  Its methods mutate the fields of the object, call the socket, the ping/pong machine and
  the logger, emit events and may throw. The embedding makes all of that explicit: a
  method is a function from the object to the updated object, the list of effects it
  performed in order, and its outcome (a returned value or a thrown error).
\<close>

type_synonym buffer = "8 word list"

text \<open>\<open>PeerState\<close>: the three states listed in the documentation of the class.\<close>

datatype PeerState = pending | awaiting_peer_init | ready

text \<open>
  Wire messages are opaque to the Peer: it only asks whether a message is an instance of
  \<open>InitMessage\<close> and serializes it.
\<close>

datatype wire_message =
    InitMessage (features: buffer)
  | OtherMessage (msgType: "16 word") (payload: buffer)

fun isInitMessage :: "wire_message \<Rightarrow> bool" where
  "isInitMessage (InitMessage _) = True"
| "isInitMessage (OtherMessage _ _) = False"

text \<open>
  Thrown values: an \<open>Error\<close> with its message, or the \<open>TypeError\<close> of a property access
  or method call on \<open>undefined\<close>.
\<close>

datatype error = JsError string | TypeError string

text \<open>The events of the EventEmitter, with their payloads.\<close>

datatype event =
    Close
  | End
  | Err error
  | Message wire_message
  | Open
  | RawMessage buffer
  | Ready
  | Sending buffer

text \<open>
  Everything a method does to the outside, in the order it does it: an emitted event, a
  call of the socket, of the ping/pong machine or of the logger.
\<close>

datatype effect =
    Emit event
  | SocketWrite buffer
  | SocketEnd
  | NoiseConnect
  | PingPongStart
  | PingPongOnMessage wire_message
  | PingPongOnDisconnecting
  | LoggerInfo

text \<open>
  The collaborators that are not part of the class: \<open>MessageFactory.deserialize\<close>, which
  throws (\<open>Inl\<close>), returns nothing (\<open>Inr None\<close>, a falsy result) or returns a message;
  \<open>serialize\<close> of a message; and the boolean that \<open>socket.write\<close> returns.
\<close>

record collaborators =
  deserialize :: "buffer \<Rightarrow> error + wire_message option"
  serialize :: "wire_message \<Rightarrow> buffer"
  socketWrite :: "buffer \<Rightarrow> bool"

text \<open>
  The fields of a Peer. \<open>socket\<close> and \<open>logger\<close> tell whether the field holds an object:
  both are undefined until \<open>connect\<close>. \<open>pingPongState\<close> is created by the constructor
  and never reassigned, so it is always present and the guard on it in \<open>_onSocketClose\<close>
  is always taken. \<open>messageCounter\<close> is a JavaScript number counting up from 0, which is
  exact for every count below \<open>2^53\<close>. \<open>initMessageFactory\<close> is the message the factory
  returns.
\<close>

record Peer =
  state :: PeerState
  socket :: bool
  messageCounter :: nat
  logger :: bool
  remoteInit :: "wire_message option"
  localInit :: "wire_message option"
  initMessageFactory :: wire_message

section \<open>Statements, exceptions and effects\<close>

datatype 'a outcome = Returned 'a | Threw error

type_synonym 'a action = "Peer \<Rightarrow> Peer \<times> effect list \<times> 'a outcome"

definition ret :: "'a \<Rightarrow> 'a action" where
  "ret x s = (s, [], Returned x)"

definition throw :: "error \<Rightarrow> 'a action" where
  "throw e s = (s, [], Threw e)"

definition perform :: "effect \<Rightarrow> unit action" where
  "perform x s = (s, [x], Returned ())"

definition assign :: "(Peer \<Rightarrow> Peer) \<Rightarrow> unit action" where
  "assign f s = (f s, [], Returned ())"

text \<open>Sequencing: a throw of the first statement skips the second.\<close>

definition and_then :: "'a action \<Rightarrow> ('a \<Rightarrow> 'b action) \<Rightarrow> 'b action" where
  "and_then f g s =
     (case f s of
        (s1, es1, Threw e) \<Rightarrow> (s1, es1, Threw e)
      | (s1, es1, Returned x) \<Rightarrow>
          (case g x s1 of (s2, es2, r) \<Rightarrow> (s2, es1 @ es2, r)))"

fun block :: "unit action list \<Rightarrow> unit action" where
  "block [] = ret ()"
| "block (a # as) = and_then a (\<lambda>_. block as)"

text \<open>\<open>try { f } catch (err) { h err }\<close>: field updates and effects made before the throw stay.\<close>

definition try_catch :: "unit action \<Rightarrow> (error \<Rightarrow> unit action) \<Rightarrow> unit action" where
  "try_catch f h s =
     (case f s of
        (s1, es1, Threw e) \<Rightarrow> (case h e s1 of (s2, es2, r) \<Rightarrow> (s2, es1 @ es2, r))
      | (s1, es1, Returned x) \<Rightarrow> (s1, es1, Returned x))"

text \<open>\<open>assert.ok(cond, err)\<close> with an Error as message throws that error.\<close>

definition assert_ok :: "(Peer \<Rightarrow> bool) \<Rightarrow> error \<Rightarrow> unit action" where
  "assert_ok cond err s = (if cond s then ret () s else throw err s)"

text \<open>
  \<open>this.emit(event, ...)\<close>: the event is appended to the trace. Listeners are outside the
  class; they are taken not to throw, and an \<open>error\<close> event is taken to have a listener
  (the EventEmitter throws the error of an \<open>error\<close> event that has none).
\<close>

definition emit :: "event \<Rightarrow> unit action" where
  "emit ev = perform (Emit ev)"

text \<open>Calls on \<open>this.socket\<close>, which throw a TypeError while the field is undefined.\<close>

definition socket_end :: "unit action" where
  "socket_end s =
     (if socket s then perform SocketEnd s
      else throw (TypeError ''Cannot read property end of undefined'') s)"

definition socket_write :: "collaborators \<Rightarrow> buffer \<Rightarrow> bool action" where
  "socket_write c buf s =
     (if socket s then (s, [SocketWrite buf], Returned (socketWrite c buf))
      else throw (TypeError ''Cannot read property write of undefined'') s)"

definition deserialize_call :: "collaborators \<Rightarrow> buffer \<Rightarrow> (wire_message option) action" where
  "deserialize_call c raw =
     (case deserialize c raw of Inl e \<Rightarrow> throw e | Inr m \<Rightarrow> ret m)"

section \<open>The methods of Peer\<close>


text \<open>
  \<open>connect\<close> creates the logger, opens the NoiseSocket and binds the handlers below to
  its signals.
\<close>

definition connect :: "unit action" where
  "connect =
     block [
       assign (\<lambda>s. s\<lparr>logger := True\<rparr>),
       perform NoiseConnect,
       assign (\<lambda>s. s\<lparr>socket := True\<rparr>)]"

definition sendMessage :: "collaborators \<Rightarrow> wire_message \<Rightarrow> bool action" where
  "sendMessage c m =
     and_then (assert_ok (\<lambda>s. state s = ready) (JsError ''Peer is not ready'')) (\<lambda>_.
     and_then (emit (Sending (serialize c m))) (\<lambda>_.
     socket_write c (serialize c m)))"

definition disconnect :: "unit action" where
  "disconnect = socket_end"

definition sendInitMessage :: "collaborators \<Rightarrow> unit action" where
  "sendInitMessage c s =
     (let msg = initMessageFactory s; payload = serialize c msg in
      block [
        assign (\<lambda>s. s\<lparr>localInit := Some msg\<rparr>),
        emit (Sending payload),
        and_then (socket_write c payload) (\<lambda>_. ret ())] s)"

definition onSocketReady :: "collaborators \<Rightarrow> unit action" where
  "onSocketReady c =
     block [
       assign (\<lambda>s. s\<lparr>state := awaiting_peer_init\<rparr>),
       emit Open,
       sendInitMessage c]"

definition onSocketEnd :: "unit action" where
  "onSocketEnd = emit End"

definition onSocketClose :: "unit action" where
  "onSocketClose = block [perform PingPongOnDisconnecting, emit Close]"

definition onSocketError :: "error \<Rightarrow> unit action" where
  "onSocketError err = emit (Err err)"

text \<open>
  \<open>_processPeerInitMessage\<close>. With a logger, the flags of \<open>m\<close> are read for the log
  line, which throws a TypeError when \<open>m\<close> is undefined.
\<close>

definition processPeerInitMessage :: "collaborators \<Rightarrow> buffer \<Rightarrow> unit action" where
  "processPeerInitMessage c raw =
     and_then (deserialize_call c raw) (\<lambda>m.
     block [
       (\<lambda>s. if logger s
             then (case m of
                     None \<Rightarrow> throw (TypeError ''Cannot read property localInitialRoutingSync of undefined'') s
                   | Some _ \<Rightarrow> perform LoggerInfo s)
             else ret () s),
       assert_ok (\<lambda>_. case m of None \<Rightarrow> False | Some x \<Rightarrow> isInitMessage x)
         (JsError ''Expecting InitMessage''),
       assign (\<lambda>s. s\<lparr>remoteInit := m\<rparr>),
       perform PingPongStart,
       assign (\<lambda>s. s\<lparr>state := ready\<rparr>),
       emit Ready])"

definition processMessage :: "collaborators \<Rightarrow> buffer \<Rightarrow> unit action" where
  "processMessage c raw =
     block [
       assign (\<lambda>s. s\<lparr>messageCounter := messageCounter s + 1\<rparr>),
       emit (RawMessage raw),
       and_then (deserialize_call c raw) (\<lambda>m.
         case m of
           None \<Rightarrow> ret ()
         | Some x \<Rightarrow> block [perform (PingPongOnMessage x), emit (Message x)])]"

definition onSocketData :: "collaborators \<Rightarrow> buffer \<Rightarrow> unit action" where
  "onSocketData c raw =
     try_catch
       (\<lambda>s. if state s = awaiting_peer_init
             then processPeerInitMessage c raw s
             else processMessage c raw s)
       (\<lambda>err. block [socket_end, emit (Err err)])"

section \<open>Traces\<close>

text \<open>
  What can happen to a Peer: a call of a public method, or a signal of the socket that
  runs the handler bound to it by \<open>connect\<close>.
\<close>

datatype input =
    Connect
  | SendMessage wire_message
  | Disconnect
  | OnReady
  | OnEnd
  | OnClose
  | OnError error
  | OnData buffer

definition forget :: "Peer \<times> effect list \<times> 'a outcome \<Rightarrow> Peer \<times> effect list" where
  "forget r = (fst r, fst (snd r))"

fun fire :: "collaborators \<Rightarrow> input \<Rightarrow> Peer \<Rightarrow> Peer \<times> effect list" where
  "fire c Connect s = forget (connect s)"
| "fire c (SendMessage m) s = forget (sendMessage c m s)"
| "fire c Disconnect s = forget (disconnect s)"
| "fire c OnReady s = forget (onSocketReady c s)"
| "fire c OnEnd s = forget (onSocketEnd s)"
| "fire c OnClose s = forget (onSocketClose s)"
| "fire c (OnError e) s = forget (onSocketError e s)"
| "fire c (OnData raw) s = forget (onSocketData c raw s)"

text \<open>
  A run feeds the inputs in order and concatenates the effects. An error thrown by a
  method goes to its caller; the object stays as the method left it.
\<close>

fun run :: "collaborators \<Rightarrow> input list \<Rightarrow> Peer \<Rightarrow> Peer \<times> effect list" where
  "run c [] s = (s, [])"
| "run c (i # is) s =
     (case fire c i s of (s1, es1) \<Rightarrow>
        (case run c is s1 of (s2, es2) \<Rightarrow> (s2, es1 @ es2)))"


section \<open>Sample collaborators and objects\<close>

text \<open>
  A small codec to run the methods on: the frame \<open>[0, 16]\<close> decodes to an init message,
  \<open>[0, 18]\<close> to a ping-like message, the empty frame makes the decoder throw and every
  other frame decodes to nothing.
\<close>

definition sample_codec :: collaborators where
  "sample_codec =
     \<lparr> deserialize = (\<lambda>raw.
         if raw = [] then Inl (JsError ''Index out of range'')
         else if raw = [0, 16] then Inr (Some (InitMessage []))
         else if raw = [0, 18] then Inr (Some (OtherMessage 18 []))
         else Inr None),
       serialize = (\<lambda>m. case m of
           InitMessage f \<Rightarrow> [0, 16] @ f
         | OtherMessage t p \<Rightarrow> [0, 18] @ p),
       socketWrite = (\<lambda>_. True) \<rparr>"

definition sample_peer :: "PeerState \<Rightarrow> Peer" where
  "sample_peer st =
     \<lparr> state = st, socket = True, messageCounter = 0, logger = True,
       remoteInit = None, localInit = None, initMessageFactory = InitMessage [] \<rparr>"





lemmas action_defs =
  ret_def throw_def perform_def assign_def and_then_def try_catch_def assert_ok_def
  emit_def socket_end_def socket_write_def deserialize_call_def

lemmas method_defs =
  connect_def sendMessage_def disconnect_def sendInitMessage_def onSocketReady_def
  onSocketEnd_def onSocketClose_def onSocketError_def processPeerInitMessage_def
  processMessage_def onSocketData_def forget_def

section \<open>Handshake\<close>

text \<open>
  C2. While the state is awaiting\_peer\_init, a frame that decodes to an InitMessage
  stores that message in remoteInit, starts the ping/pong machine, moves the state to
  ready and emits the \<open>ready\<close> event exactly once; nothing else is changed and no error
  is thrown.
\<close>

theorem init_message_reaches_ready:
  assumes "state s = awaiting_peer_init"
    and "deserialize c raw = Inr (Some m)"
    and "isInitMessage m"
  shows "onSocketData c raw s =
           (s\<lparr>remoteInit := Some m, state := ready\<rparr>,
            (if logger s then [LoggerInfo] else []) @ [PingPongStart, Emit Ready],
            Returned ())
         \<and> count_list (fst (snd (onSocketData c raw s))) (Emit Ready) = 1"
  using assms
  by (simp add: onSocketData_def processPeerInitMessage_def action_defs)

theorem init_message_reaches_ready_witness:
  "state (sample_peer awaiting_peer_init) = awaiting_peer_init
   \<and> deserialize sample_codec [0, 16] = Inr (Some (InitMessage []))
   \<and> isInitMessage (InitMessage [])
   \<and> onSocketData sample_codec [0, 16] (sample_peer awaiting_peer_init) =
       (\<lparr> state = ready, socket = True, messageCounter = 0, logger = True,
          remoteInit = Some (InitMessage []), localInit = None,
          initMessageFactory = InitMessage [] \<rparr>,
        [LoggerInfo, PingPongStart, Emit Ready],
        Returned ())
   \<and> count_list (fst (snd (onSocketData sample_codec [0, 16]
         (sample_peer awaiting_peer_init)))) (Emit Ready) = 1"
  using init_message_reaches_ready
    [of "sample_peer awaiting_peer_init" sample_codec "[0, 16]" "InitMessage []"]
  by (simp add: sample_peer_def sample_codec_def)

section \<open>Frames in the ready state\<close>

text \<open>
  C3. In state ready, a frame whose decoding throws ends the socket and emits the
  \<open>error\<close> event with the thrown error; the \<open>rawmessage\<close> event with the undecoded bytes
  is emitted before both.
\<close>

theorem decode_failure_ends_socket:
  assumes "state s = ready"
    and "socket s"
    and "deserialize c raw = Inl e"
  shows "onSocketData c raw s =
           (s\<lparr>messageCounter := messageCounter s + 1\<rparr>,
            [Emit (RawMessage raw), SocketEnd, Emit (Err e)],
            Returned ())"
  using assms
  by (simp add: onSocketData_def processMessage_def action_defs)

theorem decode_failure_ends_socket_witness:
  "state (sample_peer ready) = ready
   \<and> socket (sample_peer ready)
   \<and> deserialize sample_codec [] = Inl (JsError ''Index out of range'')
   \<and> onSocketData sample_codec [] (sample_peer ready) =
       ((sample_peer ready)\<lparr>messageCounter := 1\<rparr>,
        [Emit (RawMessage []), SocketEnd, Emit (Err (JsError ''Index out of range''))],
        Returned ())"
  using decode_failure_ends_socket
    [of "sample_peer ready" sample_codec "[]" "JsError ''Index out of range''"]
  by (simp add: sample_peer_def sample_codec_def)

text \<open>
  C5. In state ready, the effects of a frame start with the \<open>rawmessage\<close> event carrying
  the raw bytes; when the frame decodes to a message, that message is handed to the
  ping/pong machine and only then emitted as \<open>message\<close>, and nothing else happens.
\<close>

theorem ready_frame_effect_order:
  assumes "state s = ready"
  shows "fst (snd (onSocketData c raw s)) =
           Emit (RawMessage raw) #
           (case deserialize c raw of
              Inr (Some m) \<Rightarrow> [PingPongOnMessage m, Emit (Message m)]
            | Inr None \<Rightarrow> []
            | Inl e \<Rightarrow> (if socket s then [SocketEnd, Emit (Err e)] else []))"
  using assms
  by (simp add: onSocketData_def processMessage_def action_defs
      split: sum.splits option.splits)

theorem ready_frame_effect_order_witness:
  "state (sample_peer ready) = ready
   \<and> fst (snd (onSocketData sample_codec [0, 18] (sample_peer ready))) =
       [Emit (RawMessage [0, 18]), PingPongOnMessage (OtherMessage 18 []),
        Emit (Message (OtherMessage 18 []))]"
  using ready_frame_effect_order [of "sample_peer ready" sample_codec "[0, 18]"]
  by (simp add: sample_peer_def sample_codec_def)

text \<open>
  C10. In state ready, a frame for which the decoder returns nothing without throwing
  increments messageCounter and emits \<open>rawmessage\<close>, and does nothing else: no \<open>message\<close>
  and no \<open>error\<close> event, the socket is not ended, the state stays ready.
\<close>

theorem undecoded_frame_is_dropped:
  assumes "state s = ready"
    and "deserialize c raw = Inr None"
  shows "onSocketData c raw s =
           (s\<lparr>messageCounter := messageCounter s + 1\<rparr>,
            [Emit (RawMessage raw)],
            Returned ())
         \<and> state (fst (onSocketData c raw s)) = ready"
  using assms
  by (simp add: onSocketData_def processMessage_def action_defs)

theorem undecoded_frame_is_dropped_witness:
  "state (sample_peer ready) = ready
   \<and> deserialize sample_codec [7] = Inr None
   \<and> onSocketData sample_codec [7] (sample_peer ready) =
       ((sample_peer ready)\<lparr>messageCounter := 1\<rparr>, [Emit (RawMessage [7])], Returned ())
   \<and> state (fst (onSocketData sample_codec [7] (sample_peer ready))) = ready"
  using undecoded_frame_is_dropped [of "sample_peer ready" sample_codec "[7]"]
  by (simp add: sample_peer_def sample_codec_def)

section \<open>Sending\<close>

text \<open>
  C8. sendMessage in a state other than ready throws the error of its assertion, emits
  nothing and writes nothing; in state ready, with a socket, it emits \<open>sending\<close> with the
  serialized message and then writes those bytes to the socket.
\<close>

theorem sendMessage_requires_ready:
  "(state s \<noteq> ready \<longrightarrow>
      sendMessage c m s = (s, [], Threw (JsError ''Peer is not ready'')))
   \<and> (state s = ready \<and> socket s \<longrightarrow>
      sendMessage c m s =
        (s, [Emit (Sending (serialize c m)), SocketWrite (serialize c m)],
         Returned (socketWrite c (serialize c m))))"
  by (simp add: sendMessage_def action_defs)

theorem sendMessage_requires_ready_witness:
  "state (sample_peer pending) \<noteq> ready
   \<and> sendMessage sample_codec (OtherMessage 18 [1]) (sample_peer pending) =
       (sample_peer pending, [], Threw (JsError ''Peer is not ready''))
   \<and> state (sample_peer awaiting_peer_init) \<noteq> ready
   \<and> sendMessage sample_codec (OtherMessage 18 [1]) (sample_peer awaiting_peer_init) =
       (sample_peer awaiting_peer_init, [], Threw (JsError ''Peer is not ready''))
   \<and> state (sample_peer ready) = ready \<and> socket (sample_peer ready)
   \<and> sendMessage sample_codec (OtherMessage 18 [1]) (sample_peer ready) =
       (sample_peer ready, [Emit (Sending [0, 18, 1]), SocketWrite [0, 18, 1]],
        Returned True)"
  using sendMessage_requires_ready [of "sample_peer pending" sample_codec "OtherMessage 18 [1]"]
    sendMessage_requires_ready [of "sample_peer awaiting_peer_init" sample_codec "OtherMessage 18 [1]"]
    sendMessage_requires_ready [of "sample_peer ready" sample_codec "OtherMessage 18 [1]"]
  by (simp add: sample_peer_def sample_codec_def)

section \<open>Frames before the handshake is complete\<close>













section \<open>The counter of received messages\<close>








section \<open>Closing\<close>

text \<open>
  C6, as the code has it. The Peer has no closed state: a close signal of the socket
  tells the ping/pong machine that the peer is disconnecting and emits \<open>close\<close>, an error
  signal emits \<open>error\<close> with the error it received, and disconnect asks the socket to end
  (or throws while there is no socket); none of them changes a field of the Peer, so the
  state stays what it was.
\<close>

theorem close_error_disconnect_keep_state:
  "onSocketClose s = (s, [PingPongOnDisconnecting, Emit Close], Returned ())
   \<and> onSocketError e s = (s, [Emit (Err e)], Returned ())
   \<and> disconnect s =
       (s, (if socket s then [SocketEnd] else []),
        (if socket s then Returned ()
         else Threw (TypeError ''Cannot read property end of undefined'')))"
  by (simp add: onSocketClose_def onSocketError_def disconnect_def action_defs)

theorem close_error_disconnect_keep_state_witness:
  "onSocketClose (sample_peer ready) =
     (sample_peer ready, [PingPongOnDisconnecting, Emit Close], Returned ())
   \<and> onSocketError (JsError ''ECONNRESET'') (sample_peer ready) =
     (sample_peer ready, [Emit (Err (JsError ''ECONNRESET''))], Returned ())
   \<and> disconnect (sample_peer ready) = (sample_peer ready, [SocketEnd], Returned ())
   \<and> state (sample_peer ready) = ready"
  using close_error_disconnect_keep_state [of "sample_peer ready" "JsError ''ECONNRESET''"]
  by (simp add: sample_peer_def)

text \<open>
  C6 fails as stated: after an error signal of the socket a ready Peer is still ready,
  and a sendMessage that follows writes to the socket.
\<close>

theorem socket_error_leaves_ready_counterexample:
  "state (fst (onSocketError (JsError ''ECONNRESET'') (sample_peer ready))) = ready
   \<and> run sample_codec
       [OnError (JsError ''ECONNRESET''), SendMessage (OtherMessage 18 [1])]
       (sample_peer ready) =
       (sample_peer ready,
        [Emit (Err (JsError ''ECONNRESET'')), Emit (Sending [0, 18, 1]),
         SocketWrite [0, 18, 1]])"
  by (simp add: sample_peer_def sample_codec_def method_defs action_defs)

text \<open>
  C9, as the code has it. On a Peer with a socket, any number of calls of disconnect in
  a row all return without throwing, each asks the socket to end once more, and none
  changes a field or emits an event, whatever the state; a disconnect after the socket
  has signalled close does the same.
\<close>

theorem repeated_disconnect_ends_socket_each_time:
  assumes "socket s"
  shows "block (replicate n disconnect) s = (s, replicate n SocketEnd, Returned ())
         \<and> disconnect (fst (onSocketClose s)) = (s, [SocketEnd], Returned ())"
proof -
  have "block (replicate n disconnect) s = (s, replicate n SocketEnd, Returned ())"
    using assms by (induction n) (simp_all add: disconnect_def action_defs)
  moreover have "disconnect (fst (onSocketClose s)) = (s, [SocketEnd], Returned ())"
    using assms by (simp add: onSocketClose_def disconnect_def action_defs)
  ultimately show ?thesis by simp
qed

theorem repeated_disconnect_ends_socket_each_time_witness:
  "socket (sample_peer ready)
   \<and> block [disconnect, disconnect, disconnect] (sample_peer ready) =
       (sample_peer ready, [SocketEnd, SocketEnd, SocketEnd], Returned ())
   \<and> disconnect (fst (onSocketClose (sample_peer ready))) =
       (sample_peer ready, [SocketEnd], Returned ())"
  using repeated_disconnect_ends_socket_each_time [of "sample_peer ready" 3]
  by (simp add: sample_peer_def numeral_3_eq_3)

text \<open>
  C9 fails as stated: a second disconnect, and a disconnect after the socket has
  closed, are not no-ops; each calls \<open>socket.end\<close> again.
\<close>

theorem second_disconnect_counterexample:
  "fst (snd (disconnect (fst (disconnect (sample_peer ready))))) = [SocketEnd]
   \<and> run sample_codec [Disconnect, OnClose, Disconnect] (sample_peer ready) =
       (sample_peer ready,
        [SocketEnd, PingPongOnDisconnecting, Emit Close, SocketEnd])"
  by (simp add: sample_peer_def method_defs action_defs)

section \<open>A failed handshake\<close>

text \<open>
  C7, as the code has it. While the state is awaiting\_peer\_init and there is a socket,
  a frame that does not decode to an InitMessage (the decoder throws, returns nothing,
  or returns another message) ends the socket and then emits \<open>error\<close>; it emits no
  \<open>ready\<close> event and changes no field, so the state stays awaiting\_peer\_init.
\<close>

theorem failed_init_ends_socket:
  assumes "state s = awaiting_peer_init"
    and "socket s"
    and "\<forall>m. deserialize c raw = Inr (Some m) \<longrightarrow> \<not> isInitMessage m"
  shows "onSocketData c raw s =
           (s,
            (case deserialize c raw of
               Inl e \<Rightarrow> [SocketEnd, Emit (Err e)]
             | Inr None \<Rightarrow>
                 [SocketEnd,
                  Emit (Err (if logger s
                     then TypeError ''Cannot read property localInitialRoutingSync of undefined''
                     else JsError ''Expecting InitMessage''))]
             | Inr (Some m) \<Rightarrow>
                 (if logger s then [LoggerInfo] else []) @
                 [SocketEnd, Emit (Err (JsError ''Expecting InitMessage''))]),
            Returned ())
         \<and> Emit Ready \<notin> set (fst (snd (onSocketData c raw s)))
         \<and> state (fst (onSocketData c raw s)) = awaiting_peer_init"
  using assms
  by (auto simp add: onSocketData_def processPeerInitMessage_def action_defs
      split: sum.splits option.splits)

theorem failed_init_ends_socket_witness:
  "state (sample_peer awaiting_peer_init) = awaiting_peer_init
   \<and> socket (sample_peer awaiting_peer_init)
   \<and> deserialize sample_codec [0, 18] = Inr (Some (OtherMessage 18 []))
   \<and> \<not> isInitMessage (OtherMessage 18 [])
   \<and> onSocketData sample_codec [0, 18] (sample_peer awaiting_peer_init) =
       (sample_peer awaiting_peer_init,
        [LoggerInfo, SocketEnd, Emit (Err (JsError ''Expecting InitMessage''))],
        Returned ())"
  using failed_init_ends_socket [of "sample_peer awaiting_peer_init" sample_codec "[0, 18]"]
  by (simp add: sample_peer_def sample_codec_def)

text \<open>
  C7 fails as stated: after a frame that failed as init message the state is still
  awaiting\_peer\_init, and a later frame that decodes to an InitMessage makes the Peer
  ready and emits \<open>ready\<close>.
\<close>

theorem ready_after_failed_init_counterexample:
  "state (fst (onSocketData sample_codec [0, 18] (sample_peer awaiting_peer_init))) =
     awaiting_peer_init
   \<and> run sample_codec [OnData [0, 18], OnData [0, 16]] (sample_peer awaiting_peer_init) =
       ((sample_peer ready)\<lparr>remoteInit := Some (InitMessage [])\<rparr>,
        [LoggerInfo, SocketEnd, Emit (Err (JsError ''Expecting InitMessage'')),
         LoggerInfo, PingPongStart, Emit Ready])"
  by (simp add: sample_peer_def sample_codec_def method_defs action_defs)

end
